theory Spec2Isabelle
  imports Complex_Main
begin

section \<open>The GTP connector of AQ (gtp.h)\<close>

text \<open>
  A shallow embedding of class \<open>GTPConnector\<close>: the command parser, the dispatcher
  \<open>ExecuteCommand\<close> with its response framing, and the body of the session loop of
  \<open>Start\<close>. A C++ exception that nothing catches and an out-of-bounds \<open>operator[]\<close>
  both end the process; they are results of type \<open>crash\<close>.
\<close>

subsection \<open>Library functions the connector calls\<close>

datatype crash =
  IndexOutOfRange \<comment> \<open>\<open>args_[i]\<close> with \<open>i \<ge> args_.size()\<close>\<close>
| InvalidArgument \<comment> \<open>\<open>std::invalid_argument\<close> of \<open>stoi\<close>/\<open>stod\<close>\<close>
| OutOfRange \<comment> \<open>\<open>std::out_of_range\<close> of \<open>stoi\<close>/\<open>stod\<close>\<close>
| EmptyQueue \<comment> \<open>\<open>command_queue_.front()\<close> on an empty deque\<close>
| ThreadNotJoined \<comment> \<open>\<open>std::terminate\<close>: \<open>read_th\<close> is destroyed while joinable\<close>

text \<open>
  \<open>isspace\<close> and \<open>isdigit\<close> in the classic locale (a \<open>char\<close> outside ASCII is
  neither).
\<close>

definition isspace :: "char \<Rightarrow> bool" where
  "isspace c = (c = CHR '' '' \<or> c = CHR 0x09 \<or> c = CHR 0x0A \<or> c = CHR 0x0B
                 \<or> c = CHR 0x0C \<or> c = CHR 0x0D)"

definition isdigit :: "char \<Rightarrow> bool" where
  "isdigit c = (c = CHR ''0'' \<or> c = CHR ''1'' \<or> c = CHR ''2'' \<or> c = CHR ''3''
                 \<or> c = CHR ''4'' \<or> c = CHR ''5'' \<or> c = CHR ''6'' \<or> c = CHR ''7''
                 \<or> c = CHR ''8'' \<or> c = CHR ''9'')"

definition digit_val :: "char \<Rightarrow> nat" where
  "digit_val c = of_char c - 48"

text \<open>The value of a run of decimal digits, most significant first.\<close>

definition dec :: "string \<Rightarrow> nat" where
  "dec ds = foldl (\<lambda>a c. 10 * a + digit_val c) 0 ds"

definition INT_MAX :: int where
  "INT_MAX = 2147483647"

definition INT_MIN :: int where
  "INT_MIN = - 2147483648"

text \<open>
  \<open>std::stoi(str)\<close> in base 10: leading white space is skipped, one sign is accepted,
  the longest run of digits is converted and what follows it is ignored. No digit at all
  throws \<open>std::invalid_argument\<close>, a value that does not fit \<open>int\<close> throws
  \<open>std::out_of_range\<close>.
\<close>

definition stoi :: "string \<Rightarrow> crash + int" where
  "stoi str =
     (let s0 = dropWhile isspace str;
          neg = (take 1 s0 = ''-'');
          s1 = (if take 1 s0 = ''-'' \<or> take 1 s0 = ''+'' then drop 1 s0 else s0);
          ds = takeWhile isdigit s1;
          v = (if neg then - int (dec ds) else int (dec ds))
      in if ds = [] then Inl InvalidArgument
         else if v < INT_MIN \<or> INT_MAX < v then Inl OutOfRange
         else Inr v)"

text \<open>\<open>std::to_string\<close> of an \<open>int\<close>.\<close>

fun nat_digits :: "nat \<Rightarrow> string" where
  "nat_digits n =
     (if n < 10 then [''0123456789'' ! n]
      else nat_digits (n div 10) @ [''0123456789'' ! (n mod 10)])"

declare nat_digits.simps [simp del]

definition to_string :: "int \<Rightarrow> string" where
  "to_string i = (if i < 0 then ''-'' @ nat_digits (nat (- i)) else nat_digits (nat i))"

text \<open>\<open>str.find(sub) != npos\<close>: \<open>sub\<close> occurs in \<open>str\<close> as a contiguous run.\<close>

fun str_contains :: "string \<Rightarrow> string \<Rightarrow> bool" where
  "str_contains [] sub = (sub = [])"
| "str_contains (c # cs) sub = (take (length sub) (c # cs) = sub \<or> str_contains cs sub)"

subsection \<open>FindString\<close>

definition FindString :: "string \<Rightarrow> string \<Rightarrow> string \<Rightarrow> string \<Rightarrow> bool" where
  "FindString str s1 s2 s3 =
     ((s1 \<noteq> [] \<and> str_contains str s1) \<or> (s2 \<noteq> [] \<and> str_contains str s2)
      \<or> (s3 \<noteq> [] \<and> str_contains str s3))"

subsection \<open>ParseCommand\<close>

text \<open>
  \<open>iss >> s\<close> skips white space and reads up to the next white space; it fails, and the
  \<open>while\<close> loop ends, when nothing but white space is left. \<open>tokens\<close> is the list of
  the strings the successive extractions deliver.
\<close>

function tokens :: "string \<Rightarrow> string list" where
  "tokens iss =
     (if dropWhile isspace iss = [] then []
      else takeWhile (\<lambda>c. \<not> isspace c) (dropWhile isspace iss)
           # tokens (dropWhile (\<lambda>c. \<not> isspace c) (dropWhile isspace iss)))"
  by pat_completeness auto

termination
proof (relation "measure length")
  fix iss :: string
  assume ne: "dropWhile isspace iss \<noteq> []"
  then obtain c r where cr: "dropWhile isspace iss = c # r"
    by (cases "dropWhile isspace iss") auto
  have "\<not> isspace c"
    using hd_dropWhile [OF ne] cr by simp
  then have "length (dropWhile (\<lambda>c. \<not> isspace c) (c # r)) \<le> length r"
    by (simp add: length_dropWhile_le)
  moreover have "length (c # r) \<le> length iss"
    using length_dropWhile_le [of isspace iss] cr by simp
  ultimately show "(dropWhile (\<lambda>c. \<not> isspace c) (dropWhile isspace iss), iss) \<in> measure length"
    using cr by simp
qed simp

declare tokens.simps [simp del]

text \<open>
  The body of the \<open>while\<close> loop, token by token, with the three variables it updates:
  \<open>*command_id\<close>, \<open>type\<close> and \<open>*args\<close>. As long as \<open>type\<close> is empty, the
  token \<open>s\<close> loses one leading \<open>=\<close> (\<open>strip_equals\<close>), is skipped when nothing is left,
  sets the id when it is all digits, and is the name otherwise.
\<close>

definition strip_equals :: "string \<Rightarrow> string" where
  "strip_equals s = (if take 1 s = ''='' then drop 1 s else s)"

fun parse_tokens ::
  "string list \<Rightarrow> int \<Rightarrow> string \<Rightarrow> string list \<Rightarrow> crash + (int \<times> string \<times> string list)" where
  "parse_tokens [] command_id type args = Inr (command_id, type, args)"
| "parse_tokens (s # rest) command_id type args =
     (if type = [] then
        (if strip_equals s = [] then parse_tokens rest command_id type args
         else if list_all isdigit (strip_equals s) then
           (case stoi (strip_equals s) of
              Inl e \<Rightarrow> Inl e
            | Inr n \<Rightarrow> parse_tokens rest n type args)
         else parse_tokens rest command_id (strip_equals s) args)
      else parse_tokens rest command_id type (args @ [s]))"

text \<open>The result is \<open>(*command_id, type, *args)\<close>; \<open>*command_id = -1\<close> says that no id was read.\<close>

definition ParseCommand :: "string \<Rightarrow> crash + (int \<times> string \<times> string list)" where
  "ParseCommand command = parse_tokens (tokens command) (- 1) [] []"

subsection \<open>The connector's state\<close>

datatype Color = kEmpty | kBlack | kWhite

text \<open>
  The entries of the global \<open>Options\<close> table that \<open>Start\<close> and \<open>ExecuteCommand\<close>
  read or assign.
\<close>

record options =
  opt_lizzie :: bool
  opt_use_ponder :: bool
  opt_komi :: real
  opt_need_time_control :: string

text \<open>
  The data members of \<open>GTPConnector\<close>; member \<open>x_\<close> is field \<open>m_x\<close>. The board
  \<open>b_\<close> and the search tree \<open>tree_\<close> belong to classes declared in \<open>board.h\<close> and
  \<open>search.h\<close>: their states are the type parameters \<open>'b\<close> and \<open>'t\<close>. Values of type
  \<open>double\<close> are real numbers. The command queue is an argument of the loop.
\<close>

record ('t, 'b) session =
  m_b :: 'b
  m_tree :: 't
  m_c_engine :: Color
  m_go_ponder :: bool
  m_save_log :: bool
  m_args :: "string list"
  m_success_handle :: bool
  m_lizzie_interval :: int
  Options :: options

text \<open>
  What a call writes or asks of the outside, in the order it happens; \<open>stdout_of\<close> is
  the text that a list of events puts on standard output.
\<close>

datatype event =
  Stdout string \<comment> \<open>\<open>SendGTPCommand\<close>: text on standard output\<close>
| Stderr string \<comment> \<open>text on standard error\<close>
| LogFile string \<comment> \<open>text on \<open>*tree_.log_file()\<close>\<close>
| Search real int \<comment> \<open>\<open>tree_.Search\<close> with this time limit and lizzie interval\<close>
| Sleep nat \<comment> \<open>\<open>sleep_for\<close>, in milliseconds\<close>

fun stdout_of :: "event list \<Rightarrow> string" where
  "stdout_of [] = []"
| "stdout_of (Stdout x # evs) = x @ stdout_of evs"
| "stdout_of (e # evs) = stdout_of evs"

text \<open>
  What \<open>gtp.h\<close> uses and does not define: the constants \<open>kListCommands\<close>, \<open>kVersion\<close>
  and \<open>kBSize\<close>, the member functions of \<open>SearchTree\<close> and \<open>Board\<close>, the ten
  \<open>On...Command\<close> handlers (declared in the class, defined elsewhere), and the
  conversions between \<open>double\<close> and text. They are parameters of the model. A handler
  works on the whole connector and may fail.
\<close>

record ('t, 'b) env =
  kListCommands :: "string list"
  kVersion :: string
  kBSize :: int
  stod :: "string \<Rightarrow> crash + real"
  fmt_fixed1 :: "real \<Rightarrow> string" \<comment> \<open>\<open>%.1f\<close> and \<open>std::fixed << std::setprecision(1)\<close>\<close>
  tree_log_file :: "'t \<Rightarrow> bool" \<comment> \<open>\<open>tree_.log_file()\<close> is not null\<close>
  tree_StopToThink :: "'t \<Rightarrow> 't"
  tree_PrepareToThink :: "'t \<Rightarrow> 't"
  tree_set_komi :: "real \<Rightarrow> 't \<Rightarrow> 't"
  tree_set_left_time :: "real \<Rightarrow> 't \<Rightarrow> 't"
  tree_left_time :: "'t \<Rightarrow> real"
  tree_byoyomi :: "'t \<Rightarrow> real"
  tree_main_time :: "'t \<Rightarrow> real"
  tree_has_eval_worker :: "'t \<Rightarrow> bool"
  tree_SetGPUAndMemory :: "'t \<Rightarrow> 't"
  tree_Search :: "'b \<Rightarrow> real \<Rightarrow> int \<Rightarrow> 't \<Rightarrow> 't"
  tree_FinalScore :: "'b \<Rightarrow> 't \<Rightarrow> real \<times> string \<times> 't"
    \<comment> \<open>the score, the text \<open>b_.PrintOwnerMap\<close> prints for it, the tree afterwards\<close>
  board_move_before_is_pass :: "'b \<Rightarrow> bool" \<comment> \<open>\<open>b_.move_before() == kPass\<close>\<close>
  OnClearBoardCommand :: "('t, 'b) session \<Rightarrow> crash + (string \<times> ('t, 'b) session \<times> event list)"
  OnGenmoveCommand :: "('t, 'b) session \<Rightarrow> crash + (string \<times> ('t, 'b) session \<times> event list)"
  OnPlayCommand :: "('t, 'b) session \<Rightarrow> crash + (string \<times> ('t, 'b) session \<times> event list)"
  OnUndoCommand :: "('t, 'b) session \<Rightarrow> crash + (string \<times> ('t, 'b) session \<times> event list)"
  OnLzAnalyzeCommand :: "('t, 'b) session \<Rightarrow> crash + (string \<times> ('t, 'b) session \<times> event list)"
  OnKgsTimeSettingsCommand :: "('t, 'b) session \<Rightarrow> crash + (string \<times> ('t, 'b) session \<times> event list)"
  OnTimeSettingsCommand :: "('t, 'b) session \<Rightarrow> crash + (string \<times> ('t, 'b) session \<times> event list)"
  OnSetFreeHandicapCommand :: "('t, 'b) session \<Rightarrow> crash + (string \<times> ('t, 'b) session \<times> event list)"
  OnFixedHandicapCommand :: "('t, 'b) session \<Rightarrow> crash + (string \<times> ('t, 'b) session \<times> event list)"
  OnGoguiPlaySequenceCommand :: "('t, 'b) session \<Rightarrow> crash + (string \<times> ('t, 'b) session \<times> event list)"

text \<open>\<open>v[i]\<close> on a \<open>std::vector\<close>: outside the vector it is undefined behaviour.\<close>

definition at_index :: "'a list \<Rightarrow> nat \<Rightarrow> crash + 'a" where
  "at_index v i = (if i < length v then Inr (v ! i) else Inl IndexOutOfRange)"

subsection \<open>StopLizzieAnalysis and PrintFinalResult\<close>

definition StopLizzieAnalysis :: "('t, 'b) env \<Rightarrow> ('t, 'b) session \<Rightarrow> ('t, 'b) session" where
  "StopLizzieAnalysis env s =
     s\<lparr>m_tree := tree_StopToThink env (m_tree s), m_lizzie_interval := - 1\<rparr>"

definition PrintFinalResult ::
  "('t, 'b) env \<Rightarrow> ('t, 'b) session \<Rightarrow> string \<times> ('t, 'b) session \<times> event list" where
  "PrintFinalResult env s =
     (case tree_FinalScore env (m_b s) (m_tree s) of (score, owner_text, t') \<Rightarrow>
        (if score = 0 then ''0''
         else (if score > 0 then ''B+'' else ''W+'') @ fmt_fixed1 env \<bar>score\<bar>,
         s\<lparr>m_tree := t'\<rparr>,
         Stderr owner_text # (if tree_log_file env (m_tree s) then [LogFile owner_text] else [])))"

subsection \<open>ExecuteCommand\<close>

text \<open>
  The chain of \<open>if\<close>/\<open>else if\<close> of \<open>ExecuteCommand\<close>, in the order of the source.
  It yields the response text, the connector afterwards and what was written meanwhile.
  The first test looks for \<open>protocol_version\<close> anywhere in the whole command line;
  every other test compares the parsed name \<open>type\<close>.
\<close>

definition dispatch ::
  "('t, 'b) env \<Rightarrow> ('t, 'b) session \<Rightarrow> string \<Rightarrow> string
     \<Rightarrow> crash + (string \<times> ('t, 'b) session \<times> event list)" where
  "dispatch env s command type =
     (if FindString command ''protocol_version'' [] [] then Inr (''2'', s, [])
      else if type = ''name'' then Inr (''AQ'', s, [])
      else if type = ''version'' then
        Inr (if opt_lizzie (Options s) then ''0.16'' else kVersion env, s, [])
      else if type = ''known_command'' then
        Inr (if 1 \<le> length (m_args s) \<and> m_args s ! 0 \<in> set (kListCommands env)
             then ''true'' else ''false'', s, [])
      else if type = ''list_commands'' then
        Inr (foldl (\<lambda>response cmd. response @ cmd @ [CHR 0x0A]) [] (kListCommands env) @ ''= '',
             s, [])
      else if type = ''boardsize'' then
        (case at_index (m_args s) 0 of
           Inl e \<Rightarrow> Inl e
         | Inr a0 \<Rightarrow>
            (case stoi a0 of
               Inl e \<Rightarrow> Inl e
             | Inr n \<Rightarrow>
                if n \<noteq> kBSize env then
                  Inr (''This build is allowed to play in only '' @ to_string (kBSize env)
                         @ '' board.'',
                       s\<lparr>m_success_handle := False\<rparr>,
                       [Stderr (''? '' @ ''This build is allowed to play in only ''
                                 @ to_string (kBSize env) @ '' board.'' @ [CHR 0x0A])])
                else Inr ([], s, [])))
      else if type = ''clear_board'' then OnClearBoardCommand env s
      else if type = ''komi'' then
        (case at_index (m_args s) 0 of
           Inl e \<Rightarrow> Inl e
         | Inr a0 \<Rightarrow>
            (case stod env a0 of
               Inl e \<Rightarrow> Inl e
             | Inr komi \<Rightarrow>
                Inr ([],
                     s\<lparr>Options := (Options s)\<lparr>opt_komi := komi\<rparr>,
                       m_tree := tree_set_komi env komi (m_tree s)\<rparr>,
                     [Stderr (''set komi='' @ fmt_fixed1 env komi @ ''.'' @ [CHR 0x0A])])))
      else if type = ''time_left'' then
        (case at_index (m_args s) 0 of
           Inl e \<Rightarrow> Inl e
         | Inr a0 \<Rightarrow>
            (case at_index (m_args s) 1 of
               Inl e \<Rightarrow> Inl e
             | Inr a1 \<Rightarrow>
                (case stod env a1 of
                   Inl e \<Rightarrow> Inl e
                 | Inr left_time \<Rightarrow>
                    Inr ([],
                         s\<lparr>m_tree :=
                             (if m_c_engine s = kEmpty
                                 \<or> m_c_engine s =
                                     (if FindString a0 ''B'' ''b'' [] then kBlack
                                      else if FindString a0 ''W'' ''w'' [] then kWhite
                                      else kEmpty)
                              then tree_set_left_time env left_time (m_tree s)
                              else m_tree s),
                           Options := (Options s)\<lparr>opt_need_time_control := ''false''\<rparr>\<rparr>,
                         []))))
      else if type = ''genmove'' then OnGenmoveCommand env s
      else if type = ''play'' then OnPlayCommand env s
      else if type = ''undo'' then OnUndoCommand env s
      else if type = ''final_score'' then Inr (PrintFinalResult env s)
      else if type = ''lz-analyze'' then OnLzAnalyzeCommand env s
      else if type = ''kgs-time_settings'' then OnKgsTimeSettingsCommand env s
      else if type = ''time_settings'' then OnTimeSettingsCommand env s
      else if type = ''set_free_handicap'' then OnSetFreeHandicapCommand env s
      else if type = ''fixed_handicap'' \<or> type = ''place_free_handicap'' then
        OnFixedHandicapCommand env s
      else if type = ''gogui-play_sequence'' then OnGoguiPlaySequenceCommand env s
      else if type = ''kgs-game_over'' then Inr ([], s\<lparr>m_go_ponder := False\<rparr>, [])
      else if type = ''quit'' then
        (case PrintFinalResult env (StopLizzieAnalysis env s) of
           (r, s', evs) \<Rightarrow> Inr ([], s', evs))
      else
        Inr (''unknown command.'', s\<lparr>m_success_handle := False\<rparr>,
             [Stderr (''? '' @ ''unknown command.'' @ [CHR 0x0A])]))"

text \<open>
  What \<open>ExecuteCommand\<close> does between parsing and the chain: \<open>args_\<close> holds the parsed
  arguments, \<open>success_handle_ = true\<close>, and a positive \<open>lizzie_interval_\<close> makes it
  send one newline and stop the analysis.
\<close>

definition pre_dispatch ::
  "('t, 'b) env \<Rightarrow> ('t, 'b) session \<Rightarrow> string list \<Rightarrow> ('t, 'b) session \<times> event list" where
  "pre_dispatch env s parsed_args =
     (if m_lizzie_interval s > 0 then
        (StopLizzieAnalysis env (s\<lparr>m_args := parsed_args, m_success_handle := True\<rparr>),
         [Stdout [CHR 0x0A]])
      else (s\<lparr>m_args := parsed_args, m_success_handle := True\<rparr>, []))"

text \<open>The last statement but one: \<open>SendGTPCommand("%s %s%s\n", head_str, response, newline_str)\<close>.\<close>

definition response_text :: "bool \<Rightarrow> int \<Rightarrow> int \<Rightarrow> string \<Rightarrow> string" where
  "response_text success command_id lizzie_interval response =
     ((if success then ''='' else ''?'') @ (if command_id \<ge> 0 then to_string command_id else []))
     @ '' '' @ response @ (if lizzie_interval < 0 then [CHR 0x0A] else []) @ [CHR 0x0A]"

text \<open>The result is the returned flag, the connector afterwards and what was written.\<close>

definition ExecuteCommand ::
  "('t, 'b) env \<Rightarrow> ('t, 'b) session \<Rightarrow> string \<Rightarrow> crash + (bool \<times> ('t, 'b) session \<times> event list)" where
  "ExecuteCommand env s command =
     (case ParseCommand command of
        Inl e \<Rightarrow> Inl e
      | Inr (command_id, type, parsed_args) \<Rightarrow>
         (case dispatch env (fst (pre_dispatch env s parsed_args)) command type of
            Inl e \<Rightarrow> Inl e
          | Inr (response, s', evs) \<Rightarrow>
             Inr (type \<noteq> ''quit'', s',
                  (if tree_log_file env (m_tree s) then [LogFile (command @ [CHR 0x0A])] else [])
                  @ snd (pre_dispatch env s parsed_args) @ evs
                  @ [Stdout (response_text (m_success_handle s') command_id
                              (m_lizzie_interval s') response)])))"

subsection \<open>Start\<close>

definition AllocateGPU :: "('t, 'b) env \<Rightarrow> ('t, 'b) session \<Rightarrow> ('t, 'b) session \<times> event list" where
  "AllocateGPU env s =
     (if \<not> tree_has_eval_worker env (m_tree s) then
        (s\<lparr>m_tree := tree_SetGPUAndMemory env (m_tree s)\<rparr>,
         Stderr (''allocating memory...'' @ [CHR 0x0A])
         # (if \<not> m_save_log s \<and> \<not> opt_use_ponder (Options s) then [Sleep 5000] else []))
      else (s, []))"

definition start_pondering :: "('t, 'b) env \<Rightarrow> ('t, 'b) session \<Rightarrow> bool" where
  "start_pondering env s =
     (opt_use_ponder (Options s) \<and> m_go_ponder s \<and> \<not> board_move_before_is_pass env (m_b s)
      \<and> (tree_left_time env (m_tree s) > 10 \<or> tree_byoyomi env (m_tree s) \<noteq> 0))"

text \<open>The \<open>time_limit\<close> that the loop passes to \<open>tree_.Search\<close>.\<close>

definition time_limit :: "('t, 'b) env \<Rightarrow> ('t, 'b) session \<Rightarrow> real" where
  "time_limit env s =
     (if opt_lizzie (Options s) then 86400
      else if tree_byoyomi env (m_tree s) > 0 \<and> tree_main_time env (m_tree s) > 0
              \<and> tree_left_time env (m_tree s) < tree_byoyomi env (m_tree s) * 2
      then tree_byoyomi env (m_tree s) * 2
      else 100)"

text \<open>
  The first half of the loop body, up to the point where it takes a line from the queue:
  with \<open>start_pondering\<close> it allocates the GPU and searches.
\<close>

definition ponder :: "('t, 'b) env \<Rightarrow> ('t, 'b) session \<Rightarrow> ('t, 'b) session \<times> event list" where
  "ponder env s =
     (if start_pondering env s then
        (case AllocateGPU env s of
           (s1, evs1) \<Rightarrow>
             (s1\<lparr>m_tree := tree_Search env (m_b s1) (time_limit env s1) (m_lizzie_interval s1)
                               (m_tree s1)\<rparr>,
              evs1 @ [Search (time_limit env s1) (m_lizzie_interval s1)]))
      else (s, []))"

text \<open>
  One pass through the body of \<open>while (running)\<close>, where \<open>command\<close> is the line that
  \<open>command_queue_.front()\<close> delivers. The result is the new value of \<open>running\<close>, the
  connector afterwards and what was written.
\<close>

definition Start_iteration ::
  "('t, 'b) env \<Rightarrow> ('t, 'b) session \<Rightarrow> string \<Rightarrow> crash + (bool \<times> ('t, 'b) session \<times> event list)" where
  "Start_iteration env s command =
     (case ponder env s of
        (s2, evs2) \<Rightarrow>
          (case (if command \<noteq> [] \<and> start_pondering env s
                 then (s2\<lparr>m_tree := tree_StopToThink env (m_tree s2)\<rparr>, [Sleep 10])
                 else (s2, [])) of
             (s3, evs3) \<Rightarrow>
               if command = [] \<or> command = [CHR 0x0A] then
                 Inr (True, s3\<lparr>m_tree := tree_PrepareToThink env (m_tree s3)\<rparr>, evs2 @ evs3)
               else
                 (case ExecuteCommand env (s3\<lparr>m_tree := tree_PrepareToThink env (m_tree s3)\<rparr>)
                         command of
                    Inl e \<Rightarrow> Inl e
                  | Inr (running, s', evs) \<Rightarrow> Inr (running, s', evs2 @ evs3 @ evs))))"

text \<open>
  \<open>Start\<close> over the lines that \<open>command_queue_.front()\<close> delivers, in their order.
  The loop neither waits for a line nor tests \<open>empty()\<close>: when the lines are used up,
  the next pass takes \<open>front()\<close> of an empty deque. When \<open>running\<close> is false the loop
  ends and \<open>Start\<close> returns while the thread \<open>read_th\<close> is still joinable, so its
  destructor calls \<open>std::terminate\<close>. \<open>Start\<close> therefore never returns: the result is
  how the process ends and what the passes before that wrote.
\<close>

fun Start_loop ::
  "('t, 'b) env \<Rightarrow> ('t, 'b) session \<Rightarrow> string list \<Rightarrow> crash \<times> event list" where
  "Start_loop env s [] = (EmptyQueue, [])"
| "Start_loop env s (command # queue) =
     (case Start_iteration env s command of
        Inl e \<Rightarrow> (e, [])
      | Inr (running, s', evs) \<Rightarrow>
          if running then
            (case Start_loop env s' queue of (e, evs') \<Rightarrow> (e, evs @ evs'))
          else (ThreadNotJoined, evs))"

subsection \<open>The parser in terms of the token list\<close>

text \<open>
  The tokens that \<open>ParseCommand\<close> reads before it has a name are those that consist of
  digits only once a leading \<open>=\<close> is gone (a lone \<open>=\<close> among them); the first other
  token is the name.
\<close>

definition id_tokens :: "string list \<Rightarrow> string list" where
  "id_tokens ts = takeWhile (\<lambda>t. list_all isdigit (strip_equals t)) ts"

definition name_tokens :: "string list \<Rightarrow> string list" where
  "name_tokens ts = dropWhile (\<lambda>t. list_all isdigit (strip_equals t)) ts"

definition parsed_id :: "string list \<Rightarrow> int" where
  "parsed_id ts =
     (if filter (\<lambda>t. t \<noteq> []) (map strip_equals (id_tokens ts)) = [] then - 1
      else int (dec (last (filter (\<lambda>t. t \<noteq> []) (map strip_equals (id_tokens ts))))))"

definition parsed_name :: "string list \<Rightarrow> string" where
  "parsed_name ts = (case name_tokens ts of [] \<Rightarrow> [] | t # rest \<Rightarrow> strip_equals t)"

definition parsed_args :: "string list \<Rightarrow> string list" where
  "parsed_args ts = tl (name_tokens ts)"

text \<open>
  The parser as the specification words it: only the first token may carry the id, and
  the token after an id is the name whatever it looks like.
\<close>

definition ParseCommand_spec :: "string \<Rightarrow> int \<times> string \<times> string list" where
  "ParseCommand_spec line =
     (case tokens line of
        [] \<Rightarrow> (- 1, [], [])
      | t # ts \<Rightarrow>
          if strip_equals t \<noteq> [] \<and> list_all isdigit (strip_equals t)
          then (int (dec (strip_equals t)), (case ts of [] \<Rightarrow> [] | n # rest \<Rightarrow> n), tl ts)
          else (- 1, strip_equals t, ts))"

subsection \<open>The recognized commands\<close>

text \<open>
  Modelled from the spec: \<open>kListCommands\<close> is declared \<open>extern\<close> in \<open>gtp.h\<close> and its
  value is not in the source. These are the recognized commands of section 6 of the
  specification, in its order; they are also the names that the chain of
  \<open>ExecuteCommand\<close> tests for.
\<close>

definition recognized_commands :: "string list" where
  "recognized_commands =
     [''protocol_version'', ''name'', ''version'', ''known_command'', ''list_commands'',
      ''boardsize'', ''clear_board'', ''komi'', ''time_left'', ''genmove'', ''play'', ''undo'',
      ''final_score'', ''lz-analyze'', ''kgs-time_settings'', ''time_settings'',
      ''set_free_handicap'', ''fixed_handicap'', ''place_free_handicap'',
      ''gogui-play_sequence'', ''kgs-game_over'', ''quit'']"

subsection \<open>A small instance\<close>

text \<open>
  An instance of the parameters, to run the model on concrete lines: a search tree that
  only keeps its clocks, a board that only knows whether the last move was a pass,
  handlers that answer with the empty string and change nothing, \<open>kBSize = 19\<close> (the
  comment in \<open>ExecuteCommand\<close> says so), and a \<open>stod\<close> that reads whole numbers.
\<close>

record demo_tree =
  dt_left_time :: real
  dt_byoyomi :: real
  dt_main_time :: real
  dt_eval_worker :: bool
  dt_log_file :: bool

definition demo_stod :: "string \<Rightarrow> crash + real" where
  "demo_stod str = (case stoi str of Inl e \<Rightarrow> Inl e | Inr n \<Rightarrow> Inr (real_of_int n))"

definition demo_handler ::
  "(demo_tree, bool) session \<Rightarrow> crash + (string \<times> (demo_tree, bool) session \<times> event list)" where
  "demo_handler s = Inr ([], s, [])"

definition demo_env :: "(demo_tree, bool) env" where
  "demo_env =
     \<lparr>kListCommands = recognized_commands,
      kVersion = ''0.0.0'',
      kBSize = 19,
      stod = demo_stod,
      fmt_fixed1 = (\<lambda>x. to_string \<lfloor>x\<rfloor> @ ''.0''),
      tree_log_file = dt_log_file,
      tree_StopToThink = (\<lambda>t. t),
      tree_PrepareToThink = (\<lambda>t. t),
      tree_set_komi = (\<lambda>komi t. t),
      tree_set_left_time = (\<lambda>left_time t. t\<lparr>dt_left_time := left_time\<rparr>),
      tree_left_time = dt_left_time,
      tree_byoyomi = dt_byoyomi,
      tree_main_time = dt_main_time,
      tree_has_eval_worker = dt_eval_worker,
      tree_SetGPUAndMemory = (\<lambda>t. t\<lparr>dt_eval_worker := True\<rparr>),
      tree_Search = (\<lambda>b limit interval t. t),
      tree_FinalScore = (\<lambda>b t. (0, [], t)),
      board_move_before_is_pass = (\<lambda>b. b),
      OnClearBoardCommand = demo_handler,
      OnGenmoveCommand = demo_handler,
      OnPlayCommand = demo_handler,
      OnUndoCommand = demo_handler,
      OnLzAnalyzeCommand = demo_handler,
      OnKgsTimeSettingsCommand = demo_handler,
      OnTimeSettingsCommand = demo_handler,
      OnSetFreeHandicapCommand = demo_handler,
      OnFixedHandicapCommand = demo_handler,
      OnGoguiPlaySequenceCommand = demo_handler\<rparr>"

text \<open>
  The connector as the constructor's initializer list leaves it (\<open>c_engine_(kEmpty)\<close>,
  \<open>go_ponder_(false)\<close>, \<open>success_handle_(true)\<close>, \<open>lizzie_interval_(-1)\<close>), with an
  empty argument list.
\<close>

definition GTPConnector_init :: "'t \<Rightarrow> 'b \<Rightarrow> options \<Rightarrow> bool \<Rightarrow> ('t, 'b) session" where
  "GTPConnector_init t b opts save_log =
     \<lparr>m_b = b, m_tree = t, m_c_engine = kEmpty, m_go_ponder = False, m_save_log = save_log,
      m_args = [], m_success_handle = True, m_lizzie_interval = - 1, Options = opts\<rparr>"

definition demo_options :: options where
  "demo_options =
     \<lparr>opt_lizzie = False, opt_use_ponder = True, opt_komi = 7.5,
      opt_need_time_control = ''true''\<rparr>"

definition demo_tree0 :: demo_tree where
  "demo_tree0 =
     \<lparr>dt_left_time = 30, dt_byoyomi = 20, dt_main_time = 600, dt_eval_worker = True,
      dt_log_file = False\<rparr>"

definition demo_session :: "(demo_tree, bool) session" where
  "demo_session = GTPConnector_init demo_tree0 False demo_options False"

text \<open>
  The instance with a handler for \<open>lz-analyze\<close> that switches the streaming analysis
  on, as the command is meant to; the handler of the program is not in \<open>gtp.h\<close>.
\<close>

definition demo_lz_env :: "(demo_tree, bool) env" where
  "demo_lz_env =
     demo_env\<lparr>OnLzAnalyzeCommand := (\<lambda>s. Inr ([], s\<lparr>m_lizzie_interval := 100\<rparr>, []))\<rparr>"

subsection \<open>The response as the specification frames it\<close>

text \<open>
  Marker, id, one space, body, and then two newlines, or nothing at all while the
  streaming analysis is active.
\<close>

definition response_text_spec :: "bool \<Rightarrow> int \<Rightarrow> bool \<Rightarrow> string \<Rightarrow> string" where
  "response_text_spec success command_id streaming response =
     (if success then ''='' else ''?'') @ (if command_id \<ge> 0 then to_string command_id else [])
     @ '' '' @ response @ (if streaming then [] else [CHR 0x0A, CHR 0x0A])"

subsection \<open>The list of commands as the specification renders it\<close>

text \<open>The names, separated by newlines, and nothing else.\<close>

fun newline_separated :: "string list \<Rightarrow> string" where
  "newline_separated [] = []"
| "newline_separated [cmd] = cmd"
| "newline_separated (cmd # cmds) = cmd @ [CHR 0x0A] @ newline_separated cmds"

section \<open>Properties\<close>

subsection \<open>Tokens\<close>

lemma tokens_Nil: "dropWhile isspace iss = [] \<Longrightarrow> tokens iss = []"
  by (subst tokens.simps) simp

lemma tokens_Cons:
  "dropWhile isspace iss \<noteq> [] \<Longrightarrow>
     tokens iss = takeWhile (\<lambda>c. \<not> isspace c) (dropWhile isspace iss)
                  # tokens (dropWhile (\<lambda>c. \<not> isspace c) (dropWhile isspace iss))"
  by (subst tokens.simps) (simp only: if_False)

lemma takeWhile_hd_nonempty: "xs \<noteq> [] \<Longrightarrow> P (hd xs) \<Longrightarrow> takeWhile P xs \<noteq> []"
  by (cases xs) auto

text \<open>A token is never empty and holds no white space.\<close>

lemma tokens_no_space:
  "t \<in> set (tokens iss) \<Longrightarrow> t \<noteq> [] \<and> (\<forall>c \<in> set t. \<not> isspace c)"
proof (induction iss rule: tokens.induct)
  case (1 iss)
  show ?case
  proof (cases "dropWhile isspace iss = []")
    case True
    have "tokens iss = []" by (rule tokens_Nil [OF True])
    with "1.prems" show ?thesis by simp
  next
    case False
    let ?tok = "takeWhile (\<lambda>c. \<not> isspace c) (dropWhile isspace iss)"
    let ?rest = "dropWhile (\<lambda>c. \<not> isspace c) (dropWhile isspace iss)"
    have eq: "tokens iss = ?tok # tokens ?rest" by (rule tokens_Cons [OF False])
    have hd: "\<not> isspace (hd (dropWhile isspace iss))"
      using False by (rule hd_dropWhile)
    have ne: "?tok \<noteq> []"
      using False hd by (rule takeWhile_hd_nonempty)
    have ns: "\<forall>c \<in> set ?tok. \<not> isspace c"
    proof
      fix c assume "c \<in> set ?tok"
      then show "\<not> isspace c" by (rule set_takeWhileD [THEN conjunct2])
    qed
    from "1.prems" have "t = ?tok \<or> t \<in> set (tokens ?rest)"
      unfolding eq by simp
    then show ?thesis
    proof
      assume t: "t = ?tok"
      show ?thesis unfolding t using ne ns by (rule conjI)
    next
      assume "t \<in> set (tokens ?rest)"
      then show ?thesis by (rule "1.IH" [OF False])
    qed
  qed
qed

lemma filter_dropWhile_space:
  "filter (\<lambda>c. \<not> isspace c) (dropWhile isspace iss) = filter (\<lambda>c. \<not> isspace c) iss"
  by (induction iss) auto

lemma filter_takeWhile_nonspace:
  "filter (\<lambda>c. \<not> isspace c) (takeWhile (\<lambda>c. \<not> isspace c) xs) = takeWhile (\<lambda>c. \<not> isspace c) xs"
  by (induction xs) auto

text \<open>The tokens, in their order, are the line without its white space.\<close>

lemma concat_tokens: "concat (tokens iss) = filter (\<lambda>c. \<not> isspace c) iss"
proof (induction iss rule: tokens.induct)
  case (1 iss)
  show ?case
  proof (cases "dropWhile isspace iss = []")
    case True
    then have "filter (\<lambda>c. \<not> isspace c) (dropWhile isspace iss) = []"
      by (simp only: filter.simps)
    then show ?thesis
      unfolding tokens_Nil [OF True] filter_dropWhile_space by simp
  next
    case False
    have "filter (\<lambda>c. \<not> isspace c) (dropWhile isspace iss)
            = filter (\<lambda>c. \<not> isspace c) (takeWhile (\<lambda>c. \<not> isspace c) (dropWhile isspace iss)
                @ dropWhile (\<lambda>c. \<not> isspace c) (dropWhile isspace iss))"
      by simp
    also have "\<dots> = takeWhile (\<lambda>c. \<not> isspace c) (dropWhile isspace iss)
            @ filter (\<lambda>c. \<not> isspace c) (dropWhile (\<lambda>c. \<not> isspace c) (dropWhile isspace iss))"
      unfolding filter_append filter_takeWhile_nonspace ..
    finally have "filter (\<lambda>c. \<not> isspace c) iss
            = takeWhile (\<lambda>c. \<not> isspace c) (dropWhile isspace iss)
              @ concat (tokens (dropWhile (\<lambda>c. \<not> isspace c) (dropWhile isspace iss)))"
      unfolding filter_dropWhile_space "1.IH" [OF False] .
    then show ?thesis
      unfolding tokens_Cons [OF False] by simp
  qed
qed

subsection \<open>stoi on a run of digits\<close>

lemma digit_not_space: "isdigit c \<Longrightarrow> \<not> isspace c"
  by (auto simp: isdigit_def isspace_def)

lemma digit_not_sign: "isdigit c \<Longrightarrow> c \<noteq> CHR ''-'' \<and> c \<noteq> CHR ''+''"
  by (auto simp: isdigit_def)

lemma stoi_digits:
  assumes "s \<noteq> []" and "list_all isdigit s"
  shows "stoi s = (if INT_MAX < int (dec s) then Inl OutOfRange else Inr (int (dec s)))"
proof -
  obtain c r where s: "s = c # r" using assms(1) by (cases s) auto
  have c: "isdigit c" using assms(2) s by simp
  have tw: "takeWhile isdigit s = s"
    using assms(2) by (simp add: list_all_iff)
  have dw: "dropWhile isspace s = s"
    using c s by (simp add: digit_not_space)
  have sg: "take (Suc 0) s \<noteq> ''-''" "take (Suc 0) s \<noteq> ''+''"
    using c s digit_not_sign by auto
  have "\<not> int (dec s) < INT_MIN" by (simp add: INT_MIN_def)
  then show ?thesis
    using assms(1) by (simp add: stoi_def dw sg tw Let_def)
qed

subsection \<open>to_string\<close>

text \<open>\<open>std::to_string\<close> writes digits only, and they read back as the number.\<close>

lemma less_10_cases:
  "k < (10::nat) \<Longrightarrow> k = 0 \<or> k = 1 \<or> k = 2 \<or> k = 3 \<or> k = 4 \<or> k = 5 \<or> k = 6 \<or> k = 7 \<or> k = 8 \<or> k = 9"
  by arith

lemma digit_char:
  assumes "k < 10"
  shows "isdigit (''0123456789'' ! k) \<and> digit_val (''0123456789'' ! k) = k"
  using less_10_cases [OF assms] by (auto simp: isdigit_def digit_val_def)

lemma dec_snoc: "dec (ds @ [c]) = 10 * dec ds + digit_val c"
  by (simp add: dec_def)

lemma nat_digits_isdigit: "list_all isdigit (nat_digits n)"
proof (induction n rule: nat_digits.induct)
  case (1 n)
  show ?case
  proof (cases "n < 10")
    case True
    then show ?thesis by (subst nat_digits.simps) (simp add: digit_char)
  next
    case False
    have "n mod 10 < 10" by simp
    then have "isdigit (''0123456789'' ! (n mod 10))" using digit_char by blast
    then show ?thesis
      using False "1.IH" by (subst nat_digits.simps) simp
  qed
qed

lemma nat_digits_nonempty: "nat_digits n \<noteq> []"
  by (subst nat_digits.simps) simp

lemma dec_nat_digits: "dec (nat_digits n) = n"
proof (induction n rule: nat_digits.induct)
  case (1 n)
  show ?case
  proof (cases "n < 10")
    case True
    then show ?thesis
      by (subst nat_digits.simps) (simp add: dec_def digit_char)
  next
    case False
    have "n mod 10 < 10" by simp
    then have "digit_val (''0123456789'' ! (n mod 10)) = n mod 10" using digit_char by blast
    then show ?thesis
      using False "1.IH" by (subst nat_digits.simps) (simp add: dec_snoc)
  qed
qed

text \<open>
  The id that a response shows, read by \<open>stoi\<close> as the parser does, is the id that the
  request carried.
\<close>

lemma stoi_to_string:
  assumes "0 \<le> i" and "i \<le> INT_MAX"
  shows "stoi (to_string i) = Inr i"
proof -
  have ts: "to_string i = nat_digits (nat i)" using assms(1) by (simp add: to_string_def)
  have "stoi (nat_digits (nat i)) = Inr (int (dec (nat_digits (nat i))))"
    using stoi_digits [OF nat_digits_nonempty nat_digits_isdigit, of "nat i"] assms
    by (simp add: dec_nat_digits)
  then show ?thesis using assms(1) by (simp add: ts dec_nat_digits)
qed

subsection \<open>ParseCommand\<close>

text \<open>Once the name is known, every further token is an argument.\<close>

lemma parse_tokens_args:
  "type \<noteq> [] \<Longrightarrow> parse_tokens ts cid type as = Inr (cid, type, as @ ts)"
  by (induction ts arbitrary: as) simp_all

lemma parse_tokens_ids:
  assumes "\<forall>t \<in> set (id_tokens ts). int (dec (strip_equals t)) \<le> INT_MAX"
  shows "parse_tokens ts cid [] [] =
           Inr (if filter (\<lambda>t. t \<noteq> []) (map strip_equals (id_tokens ts)) = [] then cid
                else int (dec (last (filter (\<lambda>t. t \<noteq> []) (map strip_equals (id_tokens ts))))),
                parsed_name ts, parsed_args ts)"
  using assms
proof (induction ts arbitrary: cid)
  case Nil
  then show ?case
    by (simp add: id_tokens_def name_tokens_def parsed_name_def parsed_args_def)
next
  case (Cons t ts)
  show ?case
  proof (cases "list_all isdigit (strip_equals t)")
    case False
    then have ne: "strip_equals t \<noteq> []" by auto
    from False ne show ?thesis
      by (simp add: parse_tokens_args id_tokens_def name_tokens_def parsed_name_def
          parsed_args_def)
  next
    case True
    then have idt: "id_tokens (t # ts) = t # id_tokens ts"
      and nmt: "name_tokens (t # ts) = name_tokens ts"
      by (simp_all add: id_tokens_def name_tokens_def)
    have rest: "\<forall>t \<in> set (id_tokens ts). int (dec (strip_equals t)) \<le> INT_MAX"
      using Cons.prems idt by simp
    show ?thesis
    proof (cases "strip_equals t = []")
      case True
      then show ?thesis
        using Cons.IH [OF rest, of cid] idt nmt
        by (simp add: parsed_name_def parsed_args_def)
    next
      case False
      have "int (dec (strip_equals t)) \<le> INT_MAX"
        using Cons.prems idt by simp
      then have st: "stoi (strip_equals t) = Inr (int (dec (strip_equals t)))"
        using stoi_digits [OF False True] by simp
      show ?thesis
        using Cons.IH [OF rest, of "int (dec (strip_equals t))"] idt nmt False True st
        by (simp add: parsed_name_def parsed_args_def)
    qed
  qed
qed

lemmas parse_eval = isspace_def isdigit_def stoi_def dec_def digit_val_def INT_MAX_def INT_MIN_def
  strip_equals_def id_tokens_def name_tokens_def parsed_id_def parsed_name_def parsed_args_def

lemma tokens_example1: "tokens ''=7 play B Q4'' = [''=7'', ''play'', ''B'', ''Q4'']"
  by (simp add: tokens.simps isspace_def)

lemma tokens_example2: "tokens ''genmove w'' = [''genmove'', ''w'']"
  by (simp add: tokens.simps isspace_def)

lemma tokens_example3: "tokens ''7 8 play'' = [''7'', ''8'', ''play'']"
  by (simp add: tokens.simps isspace_def)

text \<open>The second example of the specification: no id, name \<open>genmove\<close>, one argument.\<close>

lemma ParseCommand_genmove: "ParseCommand ''genmove w'' = Inr (- 1, ''genmove'', [''w''])"
  by (simp add: ParseCommand_def tokens_example2 parse_eval)

text \<open>
  C1 (as stated): for every line the first token alone decides the id, and the token after
  an id is the name. The code keeps reading ids until it meets a name: on \<open>7 8 play\<close> it
  returns id 8, name \<open>play\<close> and no argument, where the specification has id 7, name
  \<open>8\<close> and the argument \<open>play\<close>.
\<close>

theorem ParseCommand_spec_counterexample:
  "ParseCommand ''7 8 play'' = Inr (8, ''play'', [])
   \<and> ParseCommand_spec ''7 8 play'' = (7, ''8'', [''play''])
   \<and> ParseCommand ''7 8 play'' \<noteq> Inr (ParseCommand_spec ''7 8 play'')"
  by (simp add: ParseCommand_def ParseCommand_spec_def tokens_example3 parse_eval)

text \<open>
  C1 (amended): \<open>ParseCommand\<close> splits the line at white space. Every token it reads
  before the name loses one leading \<open>=\<close>; such a token is skipped when nothing is left
  of it and sets the id when it is all digits, so that the last id wins. The first token
  that is neither is the name (without its leading \<open>=\<close>), and all tokens after the name
  are the arguments, in order and unchanged. This holds when the ids read fit an
  \<open>int\<close>; \<open>-1\<close> stands for no id.
\<close>

theorem ParseCommand_by_tokens:
  assumes "\<forall>t \<in> set (id_tokens (tokens command)). int (dec (strip_equals t)) \<le> INT_MAX"
  shows "ParseCommand command =
           Inr (parsed_id (tokens command), parsed_name (tokens command),
                parsed_args (tokens command))"
  unfolding ParseCommand_def parsed_id_def using parse_tokens_ids [OF assms] by simp

text \<open>The first example of the specification: id 7, name \<open>play\<close>, arguments \<open>B\<close> and \<open>Q4\<close>.\<close>

theorem ParseCommand_by_tokens_witness:
  "ParseCommand ''=7 play B Q4'' = Inr (7, ''play'', [''B'', ''Q4''])"
proof -
  have h: "\<forall>t \<in> set (id_tokens (tokens ''=7 play B Q4'')). int (dec (strip_equals t)) \<le> INT_MAX"
    by (simp add: tokens_example1 parse_eval)
  show ?thesis
    using ParseCommand_by_tokens [OF h] by (simp add: tokens_example1 parse_eval)
qed

subsection \<open>The dispatcher\<close>

lemmas exec_eval = ExecuteCommand_def pre_dispatch_def dispatch_def response_text_def FindString_def
  StopLizzieAnalysis_def PrintFinalResult_def at_index_def to_string_def nat_digits.simps
  demo_env_def demo_session_def GTPConnector_init_def demo_options_def demo_tree0_def
  demo_handler_def demo_stod_def recognized_commands_def

lemma dispatch_unknown:
  assumes "\<not> FindString command ''protocol_version'' [] []" and "type \<notin> set recognized_commands"
  shows "dispatch env s command type =
           Inr (''unknown command.'', s\<lparr>m_success_handle := False\<rparr>,
                [Stderr (''? unknown command.'' @ [CHR 0x0A])])"
  using assms by (simp add: dispatch_def recognized_commands_def)

lemma dispatch_protocol_version:
  "FindString command ''protocol_version'' [] [] \<Longrightarrow> dispatch env s command type = Inr (''2'', s, [])"
  by (simp add: dispatch_def)

lemma pre_dispatch_flag: "m_success_handle (fst (pre_dispatch env s as))"
  by (simp add: pre_dispatch_def StopLizzieAnalysis_def)

lemma pre_dispatch_streaming:
  "0 < m_lizzie_interval s \<Longrightarrow>
     pre_dispatch env s as =
       (s\<lparr>m_args := as, m_success_handle := True, m_tree := tree_StopToThink env (m_tree s),
          m_lizzie_interval := - 1\<rparr>, [Stdout [CHR 0x0A]])"
  by (simp add: pre_dispatch_def StopLizzieAnalysis_def)

lemma pre_dispatch_idle:
  "\<not> 0 < m_lizzie_interval s \<Longrightarrow>
     pre_dispatch env s as = (s\<lparr>m_args := as, m_success_handle := True\<rparr>, [])"
  by (simp add: pre_dispatch_def)

text \<open>
  A line without the text \<open>protocol_version\<close> whose name is not a recognized command is
  answered with \<open>?\<close> and \<open>unknown command.\<close>, the same text goes to standard error, and
  the returned flag is true.
\<close>

lemma ExecuteCommand_unknown:
  assumes "ParseCommand command = Inr (cid, type, as)"
    and "\<not> FindString command ''protocol_version'' [] []"
    and "type \<notin> set recognized_commands"
  shows "ExecuteCommand env s command =
           Inr (True, (fst (pre_dispatch env s as))\<lparr>m_success_handle := False\<rparr>,
                (if tree_log_file env (m_tree s) then [LogFile (command @ [CHR 0x0A])] else [])
                @ snd (pre_dispatch env s as)
                @ [Stderr (''? unknown command.'' @ [CHR 0x0A]),
                   Stdout (response_text False cid (m_lizzie_interval (fst (pre_dispatch env s as)))
                             ''unknown command.'')])"
proof -
  have q: "type \<noteq> ''quit''"
    using assms(3) by (auto simp: recognized_commands_def)
  show ?thesis
    using q by (simp add: ExecuteCommand_def assms(1) dispatch_unknown [OF assms(2,3)])
qed

lemma tokens_help: "tokens ''help protocol_version'' = [''help'', ''protocol_version'']"
  by (simp add: tokens.simps isspace_def)

lemma parse_help:
  "ParseCommand ''help protocol_version'' = Inr (- 1, ''help'', [''protocol_version''])"
  by (simp add: ParseCommand_def tokens_help parse_eval)

text \<open>
  C2 (the code at the failing input): the name \<open>help\<close> is not a recognized command, yet
  the line \<open>help protocol_version\<close> is answered with the success marker and the body
  \<open>2\<close>, and nothing is written to standard error, because the first test of the chain
  looks for \<open>protocol_version\<close> in the whole line.
\<close>

theorem ExecuteCommand_unknown_name_succeeds:
  "''help'' \<notin> set recognized_commands
   \<and> ParseCommand ''help protocol_version'' = Inr (- 1, ''help'', [''protocol_version''])
   \<and> ExecuteCommand demo_env demo_session ''help protocol_version''
       = Inr (True, demo_session\<lparr>m_args := [''protocol_version'']\<rparr>,
              [Stdout (''= 2'' @ [CHR 0x0A, CHR 0x0A])])"
  by (simp add: parse_help exec_eval)

subsection \<open>Lines that end the process\<close>

lemma parse_boardsize: "ParseCommand ''boardsize'' = Inr (- 1, ''boardsize'', [])"
  by (simp add: ParseCommand_def tokens.simps parse_eval)

lemma parse_boardsize_abc: "ParseCommand ''boardsize abc'' = Inr (- 1, ''boardsize'', [''abc''])"
  by (simp add: ParseCommand_def tokens.simps parse_eval)

lemma parse_komi: "ParseCommand ''komi'' = Inr (- 1, ''komi'', [])"
  by (simp add: ParseCommand_def tokens.simps parse_eval)

lemma parse_time_left_b: "ParseCommand ''time_left b'' = Inr (- 1, ''time_left'', [''b''])"
  by (simp add: ParseCommand_def tokens.simps parse_eval)

lemma parse_big_id: "ParseCommand ''2147483648 name'' = Inl OutOfRange"
  by (simp add: ParseCommand_def tokens.simps parse_eval)

lemmas crash_eval = ExecuteCommand_def pre_dispatch_def dispatch_def FindString_def at_index_def
  StopLizzieAnalysis_def

lemma crash_boardsize: "ExecuteCommand env s ''boardsize'' = Inl IndexOutOfRange"
  by (simp add: parse_boardsize crash_eval)

lemma crash_boardsize_abc: "ExecuteCommand env s ''boardsize abc'' = Inl InvalidArgument"
  by (simp add: parse_boardsize_abc crash_eval parse_eval)

lemma crash_komi: "ExecuteCommand env s ''komi'' = Inl IndexOutOfRange"
  by (simp add: parse_komi crash_eval)

lemma crash_time_left: "ExecuteCommand env s ''time_left b'' = Inl IndexOutOfRange"
  by (simp add: parse_time_left_b crash_eval)

lemma crash_big_id: "ExecuteCommand env s ''2147483648 name'' = Inl OutOfRange"
  by (simp add: parse_big_id ExecuteCommand_def)

text \<open>A line that ends \<open>ExecuteCommand\<close> in every state ends the loop of \<open>Start\<close> too.\<close>

lemma Start_iteration_crash:
  assumes "command \<noteq> []" and "command \<noteq> [CHR 0x0A]"
    and "\<And>s'. ExecuteCommand env s' command = Inl e"
  shows "Start_iteration env s command = Inl e"
  using assms by (simp add: Start_iteration_def split: prod.splits)

text \<open>
  C3 (the code at the failing inputs): \<open>boardsize\<close> without an argument reads
  \<open>args_[0]\<close> of an empty vector, \<open>boardsize abc\<close> lets \<open>std::invalid_argument\<close> escape
  from \<open>stoi\<close>, \<open>komi\<close> without an argument and \<open>time_left\<close> with one argument read
  past the end of \<open>args_\<close>, and an id above \<open>INT_MAX\<close> lets \<open>std::out_of_range\<close>
  escape from the parser; in every state, and the loop of \<open>Start\<close> ends with it.
\<close>

theorem ExecuteCommand_crashes:
  "ExecuteCommand env s ''boardsize'' = Inl IndexOutOfRange
   \<and> ExecuteCommand env s ''boardsize abc'' = Inl InvalidArgument
   \<and> ExecuteCommand env s ''komi'' = Inl IndexOutOfRange
   \<and> ExecuteCommand env s ''time_left b'' = Inl IndexOutOfRange
   \<and> ExecuteCommand env s ''2147483648 name'' = Inl OutOfRange
   \<and> Start_loop env s (''boardsize'' # queue) = (IndexOutOfRange, [])"
proof -
  have "Start_iteration env s ''boardsize'' = Inl IndexOutOfRange"
    by (rule Start_iteration_crash) (simp_all add: crash_boardsize)
  then have "Start_loop env s (''boardsize'' # queue) = (IndexOutOfRange, [])"
    by simp
  then show ?thesis
    using crash_boardsize crash_boardsize_abc crash_komi crash_time_left crash_big_id by blast
qed

subsection \<open>Response framing\<close>

lemma parse_name: "ParseCommand ''name'' = Inr (- 1, ''name'', [])"
  by (simp add: ParseCommand_def tokens.simps parse_eval)

lemma parse_lz: "ParseCommand ''lz-analyze 100'' = Inr (- 1, ''lz-analyze'', [''100''])"
  by (simp add: ParseCommand_def tokens.simps parse_eval)

text \<open>
  C4 (as stated): while the streaming analysis is active no newline follows the body.
  The code always ends the response with one newline: with \<open>lizzie_interval_ = 0\<close> the
  line \<open>name\<close> is answered with \<open>= AQ\<close> and a newline, and a \<open>lz-analyze\<close> whose handler
  sets a positive interval is answered with \<open>= \<close> and a newline.
\<close>

theorem ExecuteCommand_framing_counterexample:
  "ExecuteCommand demo_env (demo_session\<lparr>m_lizzie_interval := 0\<rparr>) ''name''
     = Inr (True, demo_session\<lparr>m_lizzie_interval := 0\<rparr>, [Stdout (''= AQ'' @ [CHR 0x0A])])
   \<and> ''= AQ'' @ [CHR 0x0A] \<noteq> response_text_spec True (- 1) True ''AQ''
   \<and> ExecuteCommand demo_lz_env demo_session ''lz-analyze 100''
     = Inr (True, demo_session\<lparr>m_args := [''100''], m_lizzie_interval := 100\<rparr>,
            [Stdout (''= '' @ [CHR 0x0A])])
   \<and> ''= '' @ [CHR 0x0A] \<noteq> response_text_spec True (- 1) True []"
  by (simp add: parse_name parse_lz exec_eval demo_lz_env_def response_text_spec_def)

text \<open>
  C4 (amended): when the line parses and its handler returns, the last thing
  \<open>ExecuteCommand\<close> writes to standard output is the marker (\<open>=\<close> when the success flag
  is set, \<open>?\<close> otherwise), directly followed by the id when the line had one, one space,
  the body, and then two newlines when \<open>lizzie_interval_\<close> is negative, one newline when
  it is not (the streaming analysis is active).
\<close>

theorem ExecuteCommand_framing:
  assumes "ParseCommand command = Inr (cid, type, as)"
    and "dispatch env (fst (pre_dispatch env s as)) command type = Inr (response, s', evs)"
  shows "ExecuteCommand env s command =
           Inr (type \<noteq> ''quit'', s',
                (if tree_log_file env (m_tree s) then [LogFile (command @ [CHR 0x0A])] else [])
                @ snd (pre_dispatch env s as) @ evs
                @ [Stdout ((if m_success_handle s' then ''='' else ''?'')
                           @ (if 0 \<le> cid then to_string cid else [])
                           @ '' '' @ response
                           @ (if m_lizzie_interval s' < 0 then [CHR 0x0A, CHR 0x0A] else [CHR 0x0A]))])"
  by (simp add: ExecuteCommand_def assms response_text_def)

lemma parse_7_name: "ParseCommand ''7 name'' = Inr (7, ''name'', [])"
  by (simp add: ParseCommand_def tokens.simps parse_eval)

lemma parse_7_foo: "ParseCommand ''7 foo'' = Inr (7, ''foo'', [])"
  by (simp add: ParseCommand_def tokens.simps parse_eval)

text \<open>The framing of a success with an id and of a failure with an id.\<close>

theorem ExecuteCommand_framing_witness:
  "ExecuteCommand demo_env demo_session ''7 name''
     = Inr (True, demo_session, [Stdout (''=7 AQ'' @ [CHR 0x0A, CHR 0x0A])])
   \<and> ExecuteCommand demo_env demo_session ''7 foo''
     = Inr (True, demo_session\<lparr>m_success_handle := False\<rparr>,
            [Stderr (''? unknown command.'' @ [CHR 0x0A]),
             Stdout (''?7 unknown command.'' @ [CHR 0x0A, CHR 0x0A])])"
proof -
  have d1: "dispatch demo_env (fst (pre_dispatch demo_env demo_session [])) ''7 name'' ''name''
              = Inr (''AQ'', demo_session, [])"
    by (simp add: exec_eval)
  have d2: "dispatch demo_env (fst (pre_dispatch demo_env demo_session [])) ''7 foo'' ''foo''
              = Inr (''unknown command.'', demo_session\<lparr>m_success_handle := False\<rparr>,
                     [Stderr (''? unknown command.'' @ [CHR 0x0A])])"
    by (simp add: exec_eval)
  show ?thesis
    using ExecuteCommand_framing [OF parse_7_name d1] ExecuteCommand_framing [OF parse_7_foo d2]
    by (simp add: exec_eval)
qed

subsection \<open>The end of a streaming analysis\<close>

text \<open>
  C5: when \<open>lizzie_interval_\<close> is positive and the line parses, \<open>ExecuteCommand\<close> writes
  exactly one newline to standard output, and the chain runs on a connector whose search
  has been told to stop (\<open>tree_.StopToThink()\<close>) and whose \<open>lizzie_interval_\<close> is
  \<open>-1\<close>; what the handler writes and the response of the command come after that
  newline.
\<close>

theorem ExecuteCommand_stops_streaming:
  assumes "0 < m_lizzie_interval s"
    and "ParseCommand command = Inr (cid, type, as)"
    and "dispatch env
           (s\<lparr>m_args := as, m_success_handle := True, m_tree := tree_StopToThink env (m_tree s),
              m_lizzie_interval := - 1\<rparr>) command type = Inr (response, s', evs)"
  shows "ExecuteCommand env s command =
           Inr (type \<noteq> ''quit'', s',
                (if tree_log_file env (m_tree s) then [LogFile (command @ [CHR 0x0A])] else [])
                @ [Stdout [CHR 0x0A]] @ evs
                @ [Stdout (response_text (m_success_handle s') cid (m_lizzie_interval s') response)])"
  using assms by (simp add: ExecuteCommand_def pre_dispatch_streaming)

text \<open>With an interval of 100 the line \<open>7 name\<close> gives a newline and then the response.\<close>

theorem ExecuteCommand_stops_streaming_witness:
  "ExecuteCommand demo_env (demo_session\<lparr>m_lizzie_interval := 100\<rparr>) ''7 name''
     = Inr (True, demo_session,
            [Stdout [CHR 0x0A], Stdout (''=7 AQ'' @ [CHR 0x0A, CHR 0x0A])])"
proof -
  have h: "0 < m_lizzie_interval (demo_session\<lparr>m_lizzie_interval := 100\<rparr>)"
    by simp
  have d: "dispatch demo_env
           (demo_session\<lparr>m_lizzie_interval := 100, m_args := [], m_success_handle := True,
              m_tree := tree_StopToThink demo_env (m_tree (demo_session\<lparr>m_lizzie_interval := 100\<rparr>)),
              m_lizzie_interval := - 1\<rparr>) ''7 name'' ''name'' = Inr (''AQ'', demo_session, [])"
    by (simp add: exec_eval)
  show ?thesis
    using ExecuteCommand_stops_streaming [OF h parse_7_name d] by (simp add: exec_eval)
qed

subsection \<open>The success flag\<close>

lemma pre_dispatch_ignores_flag:
  "pre_dispatch env (s\<lparr>m_success_handle := b\<rparr>) as = pre_dispatch env s as"
  by (simp add: pre_dispatch_def StopLizzieAnalysis_def)

text \<open>
  What \<open>ExecuteCommand\<close> returns, writes and leaves behind does not depend on the value
  \<open>success_handle_\<close> had before the call.
\<close>

lemma ExecuteCommand_ignores_old_flag:
  "ExecuteCommand env (s\<lparr>m_success_handle := b\<rparr>) command = ExecuteCommand env s command"
  by (simp add: ExecuteCommand_def pre_dispatch_ignores_flag split: sum.splits prod.splits)

text \<open>
  C10: whatever value \<open>b\<close> the flag \<open>success_handle_\<close> had before the call, the chain
  of handlers of \<open>ExecuteCommand\<close> runs on a connector whose flag is set (its arguments
  are the parsed ones, and a running streaming analysis has been stopped), and the marker
  of the response is \<open>=\<close> when the flag is still set after the chain and \<open>?\<close> when
  the handling of this command has cleared it.
\<close>

theorem ExecuteCommand_resets_success:
  assumes "ParseCommand command = Inr (cid, type, as)"
    and "dispatch env
           (if 0 < m_lizzie_interval s
            then StopLizzieAnalysis env (s\<lparr>m_args := as, m_success_handle := True\<rparr>)
            else s\<lparr>m_args := as, m_success_handle := True\<rparr>)
           command type = Inr (response, s', evs)"
  shows "ExecuteCommand env (s\<lparr>m_success_handle := b\<rparr>) command =
           Inr (type \<noteq> ''quit'', s',
                (if tree_log_file env (m_tree s) then [LogFile (command @ [CHR 0x0A])] else [])
                @ (if 0 < m_lizzie_interval s then [Stdout [CHR 0x0A]] else [])
                @ evs
                @ [Stdout ((if m_success_handle s' then ''='' else ''?'')
                           @ (if 0 \<le> cid then to_string cid else [])
                           @ '' '' @ response
                           @ (if m_lizzie_interval s' < 0 then [CHR 0x0A, CHR 0x0A] else [CHR 0x0A]))])"
proof (cases "0 < m_lizzie_interval s")
  case True
  then show ?thesis
    using assms
    by (simp add: ExecuteCommand_def pre_dispatch_def StopLizzieAnalysis_def response_text_def)
next
  case False
  then show ?thesis
    using assms
    by (simp add: ExecuteCommand_def pre_dispatch_def response_text_def)
qed

text \<open>
  After a failure, \<open>7 name\<close> is answered with \<open>=\<close>; after a success, \<open>7 foo\<close> is
  answered with \<open>?\<close>.
\<close>

theorem ExecuteCommand_resets_success_witness:
  "ExecuteCommand demo_env (demo_session\<lparr>m_success_handle := False\<rparr>) ''7 name''
     = Inr (True, demo_session, [Stdout (''=7 AQ'' @ [CHR 0x0A, CHR 0x0A])])
   \<and> ExecuteCommand demo_env (demo_session\<lparr>m_success_handle := True\<rparr>) ''7 foo''
     = Inr (True, demo_session\<lparr>m_success_handle := False\<rparr>,
            [Stderr (''? unknown command.'' @ [CHR 0x0A]),
             Stdout (''?7 unknown command.'' @ [CHR 0x0A, CHR 0x0A])])"
proof -
  have d1: "dispatch demo_env
              (if 0 < m_lizzie_interval demo_session
               then StopLizzieAnalysis demo_env (demo_session\<lparr>m_args := [], m_success_handle := True\<rparr>)
               else demo_session\<lparr>m_args := [], m_success_handle := True\<rparr>)
              ''7 name'' ''name'' = Inr (''AQ'', demo_session, [])"
    by (simp add: exec_eval)
  have d2: "dispatch demo_env
              (if 0 < m_lizzie_interval demo_session
               then StopLizzieAnalysis demo_env (demo_session\<lparr>m_args := [], m_success_handle := True\<rparr>)
               else demo_session\<lparr>m_args := [], m_success_handle := True\<rparr>)
              ''7 foo'' ''foo''
              = Inr (''unknown command.'', demo_session\<lparr>m_success_handle := False\<rparr>,
                     [Stderr (''? unknown command.'' @ [CHR 0x0A])])"
    by (simp add: exec_eval)
  show ?thesis
    using ExecuteCommand_resets_success [OF parse_7_name d1, where b = False]
      ExecuteCommand_resets_success [OF parse_7_foo d2, where b = True]
    by (simp add: exec_eval)
qed

subsection \<open>Empty lines in the loop\<close>

lemma stdout_of_append: "stdout_of (xs @ ys) = stdout_of xs @ stdout_of ys"
  by (induction xs rule: stdout_of.induct) simp_all

lemma stdout_of_AllocateGPU: "stdout_of (snd (AllocateGPU env s)) = []"
  by (simp add: AllocateGPU_def)

lemma stdout_of_ponder: "stdout_of (snd (ponder env s)) = []"
  using stdout_of_AllocateGPU [of env s]
  by (auto simp add: ponder_def stdout_of_append split: prod.splits)

lemma ponder_frame:
  "fst (ponder env s) = s\<lparr>m_tree := m_tree (fst (ponder env s))\<rparr>"
  by (simp add: ponder_def AllocateGPU_def split: prod.splits)

lemma parse_space: "ParseCommand '' '' = Inr (- 1, [], [])"
  by (simp add: ParseCommand_def tokens.simps parse_eval)

lemmas loop_eval = Start_iteration_def ponder_def start_pondering_def AllocateGPU_def time_limit_def

lemma parse_cr: "ParseCommand [CHR 0x0D] = Inr (- 1, [], [])"
  by (simp add: ParseCommand_def tokens.simps parse_eval)

text \<open>
  C6 (the code at the failing inputs): a blank line is to be ignored without a response.
  The loop skips a line only when it is \<open>""\<close> or \<open>"\n"\<close>. A line of one space, and
  the line \<open>"\r"\<close> that \<open>getline\<close> leaves of an empty line ending in CR LF, tokenize
  to an empty name, are handed to \<open>ExecuteCommand\<close> all the same, and are answered with
  \<open>? unknown command.\<close> on standard output.
\<close>

theorem Start_iteration_blank_line_answered:
  "ParseCommand '' '' = Inr (- 1, [], [])
   \<and> Start_iteration demo_env demo_session '' ''
       = Inr (True, demo_session\<lparr>m_success_handle := False\<rparr>,
              [Stderr (''? unknown command.'' @ [CHR 0x0A]),
               Stdout (''? unknown command.'' @ [CHR 0x0A, CHR 0x0A])])
   \<and> ParseCommand [CHR 0x0D] = Inr (- 1, [], [])
   \<and> Start_iteration demo_env demo_session [CHR 0x0D]
       = Inr (True, demo_session\<lparr>m_success_handle := False\<rparr>,
              [Stderr (''? unknown command.'' @ [CHR 0x0A]),
               Stdout (''? unknown command.'' @ [CHR 0x0A, CHR 0x0A])])"
  by (simp add: parse_space parse_cr loop_eval exec_eval)

text \<open>
  What the loop does skip: for the empty line, and for the line that is one newline, it
  does not call \<open>ExecuteCommand\<close>; nothing is written to standard output, \<open>running\<close>
  stays true and only the search tree may change (by pondering and \<open>PrepareToThink\<close>).
  Without pondering nothing is written anywhere.
\<close>

lemma Start_iteration_empty_line:
  assumes "command = [] \<or> command = [CHR 0x0A]"
  shows "\<exists>t evs. Start_iteration env s command = Inr (True, s\<lparr>m_tree := t\<rparr>, evs)
                  \<and> stdout_of evs = []
                  \<and> (\<not> start_pondering env s \<longrightarrow>
                        t = tree_PrepareToThink env (m_tree s) \<and> evs = [])"
proof -
  obtain s2 evs2 where p: "ponder env s = (s2, evs2)" by (cases "ponder env s")
  have f: "s2 = s\<lparr>m_tree := m_tree s2\<rparr>" using ponder_frame [of env s] p by simp
  have o: "stdout_of evs2 = []" using stdout_of_ponder [of env s] p by simp
  have np: "\<not> start_pondering env s \<Longrightarrow> s2 = s \<and> evs2 = []"
    using p by (simp add: ponder_def)
  let ?t = "tree_PrepareToThink env
              (if command \<noteq> [] \<and> start_pondering env s then tree_StopToThink env (m_tree s2)
               else m_tree s2)"
  let ?evs = "evs2 @ (if command \<noteq> [] \<and> start_pondering env s then [Sleep 10] else [])"
  have "Start_iteration env s command
          = Inr (True,
                 s2\<lparr>m_tree := tree_PrepareToThink env
                     (if command \<noteq> [] \<and> start_pondering env s then tree_StopToThink env (m_tree s2)
                      else m_tree s2)\<rparr>,
                 ?evs)"
    using assms p by (auto simp add: Start_iteration_def)
  moreover have "s2\<lparr>m_tree := ?t\<rparr> = s\<lparr>m_tree := ?t\<rparr>"
    by (subst f) simp
  ultimately have eq: "Start_iteration env s command = Inr (True, s\<lparr>m_tree := ?t\<rparr>, ?evs)"
    by simp
  have out: "stdout_of ?evs = []"
    using o by (simp add: stdout_of_append)
  have idle: "\<not> start_pondering env s \<longrightarrow> ?t = tree_PrepareToThink env (m_tree s) \<and> ?evs = []"
    using np by simp
  from eq out idle show ?thesis by blast
qed

text \<open>The empty line on the connector as constructed.\<close>

lemma Start_iteration_empty_line_demo:
  "Start_iteration demo_env demo_session [] = Inr (True, demo_session, [])"
  using Start_iteration_empty_line [of "[]" demo_env demo_session]
  by (auto simp add: loop_eval exec_eval)

subsection \<open>boardsize\<close>


lemma pre_dispatch_args: "m_args (fst (pre_dispatch env s as)) = as"
  by (simp add: pre_dispatch_def StopLizzieAnalysis_def)


lemma pre_dispatch_interval:
  "m_lizzie_interval (fst (pre_dispatch env s as))
     = (if 0 < m_lizzie_interval s then - 1 else m_lizzie_interval s)"
  by (simp add: pre_dispatch_def StopLizzieAnalysis_def)










lemma demo_sel:
  "kBSize demo_env = 19"
  "kVersion demo_env = ''0.0.0''"
  "kListCommands demo_env = recognized_commands"
  "tree_log_file demo_env = dt_log_file"
  "tree_StopToThink demo_env = (\<lambda>t. t)"
  "tree_PrepareToThink demo_env = (\<lambda>t. t)"
  "tree_left_time demo_env = dt_left_time"
  "tree_byoyomi demo_env = dt_byoyomi"
  "tree_main_time demo_env = dt_main_time"
  "tree_has_eval_worker demo_env = dt_eval_worker"
  "board_move_before_is_pass demo_env = (\<lambda>b. b)"
  "m_lizzie_interval demo_session = - 1"
  "m_args demo_session = []"
  "m_success_handle demo_session"
  "m_go_ponder demo_session = False"
  "m_b demo_session = False"
  "m_tree demo_session = demo_tree0"
  "Options demo_session = demo_options"
  by (simp_all add: demo_env_def demo_session_def GTPConnector_init_def)


subsection \<open>list_commands and known_command\<close>

lemma foldl_response:
  "foldl (\<lambda>response cmd. response @ cmd @ [CHR 0x0A]) acc cmds
     = acc @ concat (map (\<lambda>cmd. cmd @ [CHR 0x0A]) cmds)"
  by (induction cmds arbitrary: acc) simp_all

lemma dispatch_list_commands:
  assumes "\<not> FindString command ''protocol_version'' [] []"
  shows "dispatch env s command ''list_commands'' =
           Inr (concat (map (\<lambda>cmd. cmd @ [CHR 0x0A]) (kListCommands env)) @ ''= '', s, [])"
  using assms by (simp add: dispatch_def foldl_response)

lemma dispatch_known_command:
  assumes "\<not> FindString command ''protocol_version'' [] []"
  shows "dispatch env s command ''known_command'' =
           Inr (if m_args s \<noteq> [] \<and> hd (m_args s) \<in> set (kListCommands env)
                then ''true'' else ''false'', s, [])"
proof (cases "m_args s")
  case Nil
  then show ?thesis using assms by (simp add: dispatch_def)
next
  case (Cons a as)
  then show ?thesis using assms by (simp add: dispatch_def)
qed

lemma parse_known_play: "ParseCommand ''known_command play'' = Inr (- 1, ''known_command'', [''play''])"
  by (simp add: ParseCommand_def tokens.simps parse_eval)

lemma parse_known_help: "ParseCommand ''known_command help'' = Inr (- 1, ''known_command'', [''help''])"
  by (simp add: ParseCommand_def tokens.simps parse_eval)

lemma parse_known_pv:
  "ParseCommand ''known_command protocol_version''
     = Inr (- 1, ''known_command'', [''protocol_version''])"
  by (simp add: ParseCommand_def tokens.simps parse_eval)

lemma parse_list_commands: "ParseCommand ''list_commands'' = Inr (- 1, ''list_commands'', [])"
  by (simp add: ParseCommand_def tokens.simps parse_eval)

lemma not_protocol_version_known:
  "\<not> FindString ''known_command play'' ''protocol_version'' [] []"
  "\<not> FindString ''known_command help'' ''protocol_version'' [] []"
  "\<not> FindString ''list_commands'' ''protocol_version'' [] []"
  by (simp_all add: FindString_def)

text \<open>
  C8 (as stated): \<open>list_commands\<close> returns exactly the names, newline-separated, and
  \<open>known_command\<close> answers \<open>true\<close> for every name of the list. With the list of the
  specification, \<open>known_command protocol_version\<close> is answered with \<open>2\<close>, and the body of
  \<open>list_commands\<close> ends, after the last name and its newline, with the text \<open>= \<close>.
\<close>

theorem ExecuteCommand_list_and_known_counterexample:
  "''protocol_version'' \<in> set (kListCommands demo_env)
   \<and> ExecuteCommand demo_env demo_session ''known_command protocol_version''
       = Inr (True, demo_session\<lparr>m_args := [''protocol_version'']\<rparr>,
              [Stdout (''= 2'' @ [CHR 0x0A, CHR 0x0A])])
   \<and> dispatch demo_env demo_session ''list_commands'' ''list_commands''
       = Inr (concat (map (\<lambda>cmd. cmd @ [CHR 0x0A]) recognized_commands) @ ''= '', demo_session, [])
   \<and> concat (map (\<lambda>cmd. cmd @ [CHR 0x0A]) recognized_commands) @ ''= ''
       \<noteq> newline_separated recognized_commands"
proof -
  have 1: "''protocol_version'' \<in> set (kListCommands demo_env)"
    by (simp add: demo_sel recognized_commands_def)
  have 2: "ExecuteCommand demo_env demo_session ''known_command protocol_version''
       = Inr (True, demo_session\<lparr>m_args := [''protocol_version'']\<rparr>,
              [Stdout (''= 2'' @ [CHR 0x0A, CHR 0x0A])])"
    by (simp add: parse_known_pv exec_eval)
  have 3: "dispatch demo_env demo_session ''list_commands'' ''list_commands''
       = Inr (concat (map (\<lambda>cmd. cmd @ [CHR 0x0A]) recognized_commands) @ ''= '', demo_session, [])"
    using dispatch_list_commands [OF not_protocol_version_known(3), of demo_env demo_session]
    by (simp add: demo_sel)
  have 4: "concat (map (\<lambda>cmd. cmd @ [CHR 0x0A]) recognized_commands) @ ''= ''
       \<noteq> newline_separated recognized_commands"
    by (simp add: recognized_commands_def)
  from 1 2 3 4 show ?thesis by blast
qed

text \<open>
  C8 (amended): on a line that parses and does not contain the text
  \<open>protocol_version\<close> anywhere (this holds for \<open>list_commands\<close> and for
  \<open>known_command\<close> alike), \<open>list_commands\<close> answers with every name of
  \<open>kListCommands\<close> followed by a newline, in the order of the list, and then the text
  \<open>= \<close>; \<open>known_command\<close> answers \<open>true\<close> when its first argument is in
  \<open>kListCommands\<close> and \<open>false\<close> when it is not or is missing.
\<close>

theorem ExecuteCommand_list_and_known:
  assumes "ParseCommand command = Inr (cid, type, as)"
    and "\<not> FindString command ''protocol_version'' [] []"
  shows "(type = ''list_commands'' \<longrightarrow>
            ExecuteCommand env s command =
              Inr (True, fst (pre_dispatch env s as),
                   (if tree_log_file env (m_tree s) then [LogFile (command @ [CHR 0x0A])] else [])
                   @ snd (pre_dispatch env s as)
                   @ [Stdout (response_text True cid
                        (if 0 < m_lizzie_interval s then - 1 else m_lizzie_interval s)
                        (concat (map (\<lambda>cmd. cmd @ [CHR 0x0A]) (kListCommands env)) @ ''= ''))]))
       \<and> (type = ''known_command'' \<longrightarrow>
            ExecuteCommand env s command =
              Inr (True, fst (pre_dispatch env s as),
                   (if tree_log_file env (m_tree s) then [LogFile (command @ [CHR 0x0A])] else [])
                   @ snd (pre_dispatch env s as)
                   @ [Stdout (response_text True cid
                        (if 0 < m_lizzie_interval s then - 1 else m_lizzie_interval s)
                        (if as \<noteq> [] \<and> hd as \<in> set (kListCommands env)
                         then ''true'' else ''false''))]))"
proof (intro conjI impI)
  assume t: "type = ''list_commands''"
  show "ExecuteCommand env s command =
              Inr (True, fst (pre_dispatch env s as),
                   (if tree_log_file env (m_tree s) then [LogFile (command @ [CHR 0x0A])] else [])
                   @ snd (pre_dispatch env s as)
                   @ [Stdout (response_text True cid
                        (if 0 < m_lizzie_interval s then - 1 else m_lizzie_interval s)
                        (concat (map (\<lambda>cmd. cmd @ [CHR 0x0A]) (kListCommands env)) @ ''= ''))])"
    using assms(1) t pre_dispatch_flag [where env = env and s = s and as = as]
    by (simp add: ExecuteCommand_def dispatch_list_commands [OF assms(2)] pre_dispatch_interval)
next
  assume t: "type = ''known_command''"
  show "ExecuteCommand env s command =
              Inr (True, fst (pre_dispatch env s as),
                   (if tree_log_file env (m_tree s) then [LogFile (command @ [CHR 0x0A])] else [])
                   @ snd (pre_dispatch env s as)
                   @ [Stdout (response_text True cid
                        (if 0 < m_lizzie_interval s then - 1 else m_lizzie_interval s)
                        (if as \<noteq> [] \<and> hd as \<in> set (kListCommands env)
                         then ''true'' else ''false''))])"
    using assms(1) t pre_dispatch_flag [where env = env and s = s and as = as]
    by (simp add: ExecuteCommand_def dispatch_known_command [OF assms(2)] pre_dispatch_interval
        pre_dispatch_args)
qed

text \<open>\<open>play\<close> is known, \<open>help\<close> is not, and the list is followed by \<open>= \<close>.\<close>

theorem ExecuteCommand_list_and_known_witness:
  "ExecuteCommand demo_env demo_session ''known_command play''
     = Inr (True, demo_session\<lparr>m_args := [''play'']\<rparr>, [Stdout (''= true'' @ [CHR 0x0A, CHR 0x0A])])
   \<and> ExecuteCommand demo_env demo_session ''known_command help''
     = Inr (True, demo_session\<lparr>m_args := [''help'']\<rparr>, [Stdout (''= false'' @ [CHR 0x0A, CHR 0x0A])])
   \<and> stdout_of (snd (snd (projr (ExecuteCommand demo_env demo_session ''list_commands''))))
     = ''= '' @ concat (map (\<lambda>cmd. cmd @ [CHR 0x0A]) recognized_commands) @ ''= ''
       @ [CHR 0x0A, CHR 0x0A]"
  using ExecuteCommand_list_and_known [OF parse_known_play not_protocol_version_known(1),
      of demo_env demo_session]
    ExecuteCommand_list_and_known [OF parse_known_help not_protocol_version_known(2),
      of demo_env demo_session]
    ExecuteCommand_list_and_known [OF parse_list_commands not_protocol_version_known(3),
      of demo_env demo_session]
  by (simp add: demo_sel response_text_def pre_dispatch_def demo_session_def GTPConnector_init_def
      demo_tree0_def recognized_commands_def)

subsection \<open>The time limit of pondering\<close>












subsection \<open>Runs of the loop\<close>

lemma parse_foo: "ParseCommand ''foo'' = Inr (- 1, ''foo'', [])"
  by (simp add: ParseCommand_def tokens.simps parse_eval)

text \<open>
  A failure followed by a success, through the loop; after the two lines the queue is
  empty.
\<close>

lemma Start_loop_failure_then_success:
  "Start_loop demo_env demo_session [''foo'', ''name'']
     = (EmptyQueue,
        [Stderr (''? unknown command.'' @ [CHR 0x0A]),
         Stdout (''? unknown command.'' @ [CHR 0x0A, CHR 0x0A]),
         Stdout (''= AQ'' @ [CHR 0x0A, CHR 0x0A])])"
  by (simp add: parse_foo parse_name loop_eval exec_eval)

lemma parse_quit: "ParseCommand ''quit'' = Inr (- 1, ''quit'', [])"
  by (simp add: ParseCommand_def tokens.simps parse_eval)

text \<open>\<open>quit\<close> ends the loop: the line after it is not read.\<close>

lemma Start_loop_quit:
  "Start_loop demo_env demo_session [''quit'', ''name'']
     = (ThreadNotJoined, [Stderr [], Stdout (''= '' @ [CHR 0x0A, CHR 0x0A])])"
  by (simp add: parse_quit loop_eval exec_eval)

end
